theory Spec2Isabelle
  imports Complex_Main "HOL-Library.Stream"
begin

section \<open>CircleEnv: an RC car following a circle (aa\_simulation/envs/circle\_env.py)\<close>

text \<open>
  The source computes with numpy float64 values. The embedding idealises a finite
  float as a real number, so rounding, overflow and the sign of zero are outside the
  model. What is kept of IEEE arithmetic is what the source can produce beyond the
  reals: \<open>np.inf\<close> (assigned in \<open>step\<close>) and the result of dividing by zero (numpy
  returns \<open>nan\<close> or an infinity and goes on, it does not raise).
\<close>

subsection \<open>numpy values and operations\<close>

datatype npfloat = Fin real | PosInf | NegInf | NaN

text \<open>\<open>a / b\<close> on two finite values; the divisors of the source are sums of squares,
  so a zero divisor is \<open>+0.0\<close>.\<close>

definition np_div :: "real \<Rightarrow> real \<Rightarrow> npfloat" where
  "np_div a b =
     (if b = 0 then (if a = 0 then NaN else if 0 < a then PosInf else NegInf)
      else Fin (a / b))"

fun np_mul :: "npfloat \<Rightarrow> npfloat \<Rightarrow> npfloat" where
  "np_mul (Fin a) (Fin b) = Fin (a * b)"
| "np_mul NaN _ = NaN"
| "np_mul _ NaN = NaN"
| "np_mul PosInf (Fin b) = (if b = 0 then NaN else if 0 < b then PosInf else NegInf)"
| "np_mul NegInf (Fin b) = (if b = 0 then NaN else if 0 < b then NegInf else PosInf)"
| "np_mul (Fin a) PosInf = (if a = 0 then NaN else if 0 < a then PosInf else NegInf)"
| "np_mul (Fin a) NegInf = (if a = 0 then NaN else if 0 < a then NegInf else PosInf)"
| "np_mul PosInf PosInf = PosInf"
| "np_mul PosInf NegInf = NegInf"
| "np_mul NegInf PosInf = NegInf"
| "np_mul NegInf NegInf = PosInf"

fun np_add :: "npfloat \<Rightarrow> npfloat \<Rightarrow> npfloat" where
  "np_add (Fin a) (Fin b) = Fin (a + b)"
| "np_add NaN _ = NaN"
| "np_add _ NaN = NaN"
| "np_add PosInf NegInf = NaN"
| "np_add NegInf PosInf = NaN"
| "np_add PosInf _ = PosInf"
| "np_add _ PosInf = PosInf"
| "np_add NegInf _ = NegInf"
| "np_add _ NegInf = NegInf"

fun np_sub :: "npfloat \<Rightarrow> npfloat \<Rightarrow> npfloat" where
  "np_sub (Fin a) (Fin b) = Fin (a - b)"
| "np_sub NaN _ = NaN"
| "np_sub _ NaN = NaN"
| "np_sub PosInf PosInf = NaN"
| "np_sub NegInf NegInf = NaN"
| "np_sub PosInf _ = PosInf"
| "np_sub _ NegInf = PosInf"
| "np_sub NegInf _ = NegInf"
| "np_sub _ PosInf = NegInf"

text \<open>\<open>np.square(x)\<close> is \<open>x * x\<close>.\<close>

definition np_square :: "real \<Rightarrow> real" where
  "np_square x = x * x"

text \<open>\<open>np.deg2rad(d)\<close> is \<open>d * pi / 180\<close>.\<close>

definition deg2rad :: "real \<Rightarrow> real" where
  "deg2rad d = d * pi / 180"

text \<open>The float remainder \<open>a % b\<close> of Python and numpy: the result has the sign of the
  divisor, \<open>a - b * floor (a / b)\<close>. The only divisor of the source is \<open>2 * pi\<close>.\<close>

definition py_mod :: "real \<Rightarrow> real \<Rightarrow> real" where
  "py_mod a b = a - b * of_int \<lfloor>a / b\<rfloor>"

text \<open>\<open>np.arctan2(x1, x2)\<close>: the angle in \<open>(-pi, pi]\<close> of the point with abscissa
  \<open>x2\<close> and ordinate \<open>x1\<close>, and \<open>0\<close> at the origin.\<close>

definition arctan2 :: "real \<Rightarrow> real \<Rightarrow> real" where
  "arctan2 x1 x2 =
     (if 0 < x2 then arctan (x1 / x2)
      else if x2 < 0 then (if 0 \<le> x1 then arctan (x1 / x2) + pi else arctan (x1 / x2) - pi)
      else if 0 < x1 then pi / 2
      else if x1 < 0 then - (pi / 2)
      else 0)"

text \<open>\<open>np.random.random()\<close>: the generator is a stream of draws; a call takes the
  head and leaves the rest.\<close>

definition np_random_random :: "real stream \<Rightarrow> real \<times> real stream" where
  "np_random_random rng = (shd rng, stl rng)"

subsection \<open>The environment\<close>

text \<open>
  The absolute state is a numpy vector \<open>[x, y, yaw, x_dot, y_dot, yaw_dot]\<close>, here a
  list of reals. The source unpacks it into six names, which raises \<open>ValueError\<close> on a
  vector of another length.
\<close>

datatype error = ValueError

text \<open>
  The fields of the instance. \<open>radius\<close> is set by \<open>__init__\<close>; \<open>target_velocity\<close>, \<open>_dt\<close>,
  \<open>_state\<close>, \<open>_action\<close>, \<open>_model.state_transition\<close> and \<open>_check_collision\<close> belong to
  the base class \<open>VehicleEnv\<close>, which is not among the sources: the two methods are
  parameters of the model (any function of the right type), the action type is a type
  parameter. \<open>_action\<close> is \<open>None\<close> after \<open>reset\<close>.
\<close>

record 'a env =
  radius :: real
  target_velocity :: real
  self_dt :: real
  self_state :: "real list"
  self_action :: "'a option"
  model_state_transition :: "real list \<Rightarrow> 'a \<Rightarrow> real \<Rightarrow> real list"
  check_collision :: "real list \<Rightarrow> bool"

text \<open>The result of \<open>step\<close>: rllab's \<open>Step(observation, reward, done, dist=..., vel=...)\<close>.\<close>

record step_result =
  observation :: "npfloat list"
  reward :: real
  done_flag :: bool
  dist_info :: npfloat
  vel_info :: npfloat

subsection \<open>\<open>_normalize_angle\<close>\<close>

definition normalize_angle :: "real \<Rightarrow> real" where
  "normalize_angle angle =
     (let angle = py_mod angle (2 * pi)
      in if angle > pi then angle - 2 * pi else angle)"

subsection \<open>\<open>_state_to_relative\<close>\<close>

definition state_to_relative :: "'a env \<Rightarrow> real list \<Rightarrow> error + npfloat list" where
  "state_to_relative env state =
     (let r = radius env in
      case state of
        [x, y, yaw, x_dot, y_dot, yaw_dot] \<Rightarrow>
          (let dx = sqrt (np_square x + np_square y) - r;
               theta = normalize_angle (arctan2 (- x) y + pi - yaw);
               ddx = np_add
                       (np_mul (np_div x ((x ^ 2 + y ^ 2) powr (1 / 2))) (Fin x_dot))
                       (np_mul (np_div y ((x ^ 2 + y ^ 2) powr (1 / 2))) (Fin y_dot));
               dtheta = np_sub
                          (np_sub
                             (np_mul (np_div x (x ^ 2 + y ^ 2)) (Fin x_dot))
                             (np_mul (np_div y (x ^ 2 + y ^ 2)) (Fin y_dot)))
                          (Fin yaw_dot)
           in Inr [Fin dx, Fin theta, ddx, dtheta])
      | _ \<Rightarrow> Inl ValueError)"

subsection \<open>\<open>get_initial_state\<close>\<close>

definition get_initial_state :: "'a env \<Rightarrow> real stream \<Rightarrow> real list \<times> real stream" where
  "get_initial_state env rng0 =
     (let angle_margin = deg2rad 60;
          position_margin = 0.5;
          velocity_margin = 1.5 * target_velocity env;
          yaw_dot_margin = 2;
          (u1, rng1) = np_random_random rng0;
          x = position_margin * u1 - position_margin / 2;
          x = x - radius env;
          (u2, rng2) = np_random_random rng1;
          yaw = angle_margin * u2 - angle_margin / 2;
          yaw = yaw + deg2rad 270;
          (u3, rng3) = np_random_random rng2;
          x_dot = velocity_margin * u3 - velocity_margin / 2;
          (u4, rng4) = np_random_random rng3;
          y_dot = - velocity_margin * u4;
          (u5, rng5) = np_random_random rng4;
          yaw_dot = yaw_dot_margin * u5 - yaw_dot_margin / 2;
          state = replicate 6 0;
          state = state[0 := x];
          state = state[2 := yaw];
          state = state[3 := x_dot];
          state = state[4 := y_dot];
          state = state[5 := yaw_dot]
      in (state, rng5))"

subsection \<open>\<open>step\<close>\<close>

text \<open>
  \<open>step\<close> returns the instance after the call and either the \<open>Step\<close> or the error
  raised. The assignments to \<open>_action\<close> and, without a collision, to \<open>_state\<close> come
  before the unpacking that can raise, so they are in the instance also then.
\<close>

definition step :: "'a env \<Rightarrow> 'a \<Rightarrow> 'a env \<times> (error + step_result)" where
  "step env action =
     (let env = env\<lparr>self_action := Some action\<rparr>;
          nextstate = model_state_transition env (self_state env) action (self_dt env);
          collision = check_collision env nextstate
      in if collision then
           (let reward = - 100;
                done = True;
                distance = PosInf;
                vel_diff = PosInf
            in case state_to_relative env nextstate of
                 Inl e \<Rightarrow> (env, Inl e)
               | Inr next_observation \<Rightarrow>
                   (env, Inr \<lparr>observation = next_observation, reward = reward,
                              done_flag = done, dist_info = distance, vel_info = vel_diff\<rparr>))
         else
           (let env = env\<lparr>self_state := nextstate\<rparr>;
                done = False;
                r = radius env
            in case nextstate of
                 [x, y, _, x_dot, y_dot, _] \<Rightarrow>
                   (let lambda1 = 0.25;
                        velocity = sqrt (np_square x_dot + np_square y_dot);
                        vel_diff = velocity - target_velocity env;
                        distance = r - sqrt (np_square x + np_square y);
                        reward = - \<bar>distance\<bar>;
                        reward = reward - lambda1 * np_square vel_diff
                    in case state_to_relative env nextstate of
                         Inl e \<Rightarrow> (env, Inl e)
                       | Inr next_observation \<Rightarrow>
                           (env, Inr \<lparr>observation = next_observation, reward = reward,
                                      done_flag = done, dist_info = Fin distance,
                                      vel_info = Fin vel_diff\<rparr>))
               | _ \<Rightarrow> (env, Inl ValueError)))"

subsection \<open>\<open>reset\<close>\<close>

text \<open>The renderer that \<open>reset\<close> resets when there is one has no part in the result.\<close>

definition reset :: "'a env \<Rightarrow> real stream \<Rightarrow> 'a env \<times> real stream \<times> (error + npfloat list)" where
  "reset env rng =
     (let env = env\<lparr>self_action := None\<rparr>;
          (state, rng) = get_initial_state env rng;
          env = env\<lparr>self_state := state\<rparr>;
          observation = state_to_relative env (self_state env)
      in (env, rng, observation))"

subsection \<open>A concrete instance\<close>

text \<open>
  An instance on which the theorems below are evaluated: radius and target velocity 1,
  the car on the circle at \<open>(1, 0)\<close> heading along the tangent at the target
  velocity. The dynamics model moves \<open>x\<close> by \<open>dt * action\<close>; a state collides when
  \<open>|x|\<close> exceeds \<open>3/2\<close>.
\<close>

definition example_env :: "real env" where
  "example_env =
     \<lparr>radius = 1, target_velocity = 1, self_dt = 1,
      self_state = [1, 0, pi / 2, 0, 1, 0], self_action = None,
      model_state_transition = (\<lambda>s a t. s[0 := s ! 0 + t * a]),
      check_collision = (\<lambda>s. 3 / 2 < \<bar>s ! 0\<bar>)\<rparr>"

section \<open>Auxiliary facts\<close>

lemma np_square_power2: "np_square x = x ^ 2"
  by (simp add: np_square_def power2_eq_square)

subsection \<open>The float remainder\<close>

lemma py_mod_range:
  assumes "0 < b"
  shows "0 \<le> py_mod a b" and "py_mod a b < b"
proof -
  have 1: "of_int \<lfloor>a / b\<rfloor> \<le> a / b" by (rule of_int_floor_le)
  have 2: "a / b < of_int \<lfloor>a / b\<rfloor> + 1" by linarith
  from 1 assms have "of_int \<lfloor>a / b\<rfloor> * b \<le> a"
    by (simp only: pos_le_divide_eq)
  then show "0 \<le> py_mod a b" by (simp add: py_mod_def mult.commute)
  from 2 assms have "a < (of_int \<lfloor>a / b\<rfloor> + 1) * b"
    by (simp only: pos_divide_less_eq)
  then show "py_mod a b < b" by (simp add: py_mod_def algebra_simps)
qed

lemma py_mod_small:
  assumes "0 \<le> a" and "a < b"
  shows "py_mod a b = a"
proof -
  from assms have "0 < b" by simp
  with assms have "0 \<le> a / b" "a / b < 1" by simp_all
  then have "\<lfloor>a / b\<rfloor> = 0" by linarith
  then show ?thesis by (simp add: py_mod_def)
qed

lemma py_mod_negative:
  assumes "- b \<le> a" and "a < 0"
  shows "py_mod a b = a + b"
proof -
  from assms have b: "0 < b" by simp
  with assms have "- 1 \<le> a / b" "a / b < 0"
    by (simp_all add: pos_le_divide_eq pos_divide_less_eq)
  then have "\<lfloor>a / b\<rfloor> = - 1" by linarith
  then show ?thesis by (simp add: py_mod_def)
qed

subsection \<open>The range of \<open>_normalize_angle\<close>\<close>

text \<open>The result is in \<open>(-pi, pi]\<close>, and every angle of that interval is returned
  unchanged.\<close>

lemma normalize_angle_range:
  shows "- pi < normalize_angle a" and "normalize_angle a \<le> pi"
proof -
  have "0 \<le> py_mod a (2 * pi)" and "py_mod a (2 * pi) < 2 * pi"
    using py_mod_range [of "2 * pi" a] by simp_all
  then show "- pi < normalize_angle a" and "normalize_angle a \<le> pi"
    using pi_gt_zero by (simp_all add: normalize_angle_def Let_def)
qed

lemma normalize_angle_fixed:
  assumes "- pi < v" and "v \<le> pi"
  shows "normalize_angle v = v"
proof (cases "0 \<le> v")
  case True
  with assms have "py_mod v (2 * pi) = v"
    using pi_gt_zero by (intro py_mod_small) linarith+
  with assms show ?thesis by (simp add: normalize_angle_def Let_def)
next
  case False
  with assms have "py_mod v (2 * pi) = v + 2 * pi"
    using pi_gt_zero by (intro py_mod_negative) linarith+
  with assms show ?thesis by (simp add: normalize_angle_def Let_def)
qed

subsection \<open>Vectors of six components\<close>

lemma length_six:
  assumes "length (s :: 'b list) = 6"
  shows "\<exists>a b c d e f. s = [a, b, c, d, e, f]"
proof -
  from assms obtain a s1 where 1: "s = a # s1" "length s1 = 5" by (cases s) auto
  then obtain b s2 where 2: "s1 = b # s2" "length s2 = 4" by (cases s1) auto
  then obtain c s3 where 3: "s2 = c # s3" "length s3 = 3" by (cases s2) auto
  then obtain d s4 where 4: "s3 = d # s4" "length s4 = 2" by (cases s3) auto
  then obtain e s5 where 5: "s4 = e # s5" "length s5 = 1" by (cases s4) auto
  then obtain f where 6: "s5 = [f]" by (cases s5) auto
  from 1 2 3 4 5 6 show ?thesis by blast
qed

text \<open>Unpacking into six names, as one test on the length.\<close>

lemma case_six:
  "(case s of [x, y, yaw, x_dot, y_dot, yaw_dot] \<Rightarrow> f x y yaw x_dot y_dot yaw_dot | _ \<Rightarrow> d) =
     (if length s = 6 then f (s ! 0) (s ! 1) (s ! 2) (s ! 3) (s ! 4) (s ! 5) else d)"
  by (auto split: list.splits)

lemma sum_squares_nonzero:
  fixes x y :: real
  assumes "(x, y) \<noteq> (0, 0)"
  shows "0 < x ^ 2 + y ^ 2"
  using assms by (simp add: sum_power2_gt_zero_iff)

lemma state_to_relative_defined:
  "\<exists>obs. state_to_relative env [x, y, yaw, x_dot, y_dot, yaw_dot] = Inr obs"
  by (simp add: state_to_relative_def Let_def)

text \<open>The transform reads the radius only.\<close>

lemma state_to_relative_env:
  "state_to_relative (env\<lparr>self_action := a\<rparr>) s = state_to_relative env s"
  "state_to_relative (env\<lparr>self_state := t\<rparr>) s = state_to_relative env s"
  by (simp_all add: state_to_relative_def)

subsection \<open>The transform away from the origin\<close>

lemma relative_coordinates:
  assumes "(x, y) \<noteq> (0, 0)"
  shows "state_to_relative env [x, y, yaw, x_dot, y_dot, yaw_dot] =
           Inr [Fin (sqrt (x ^ 2 + y ^ 2) - radius env),
                Fin (normalize_angle (arctan2 (- x) y + pi - yaw)),
                Fin ((x * x_dot + y * y_dot) / sqrt (x ^ 2 + y ^ 2)),
                Fin ((x * x_dot - y * y_dot) / (x ^ 2 + y ^ 2) - yaw_dot)]"
proof -
  from assms have pos: "0 < x ^ 2 + y ^ 2" by (rule sum_squares_nonzero)
  then have half: "(x ^ 2 + y ^ 2) powr (1 / 2) = sqrt (x ^ 2 + y ^ 2)"
    by (simp add: powr_half_sqrt)
  from pos have "0 < sqrt (x ^ 2 + y ^ 2)" by (rule real_sqrt_gt_zero)
  then have root: "sqrt (x ^ 2 + y ^ 2) \<noteq> 0" by linarith
  from pos have nz: "x ^ 2 + y ^ 2 \<noteq> 0" by linarith
  have ddx: "np_add (np_mul (np_div x ((x ^ 2 + y ^ 2) powr (1 / 2))) (Fin x_dot))
                    (np_mul (np_div y ((x ^ 2 + y ^ 2) powr (1 / 2))) (Fin y_dot))
             = Fin ((x * x_dot + y * y_dot) / sqrt (x ^ 2 + y ^ 2))"
    unfolding half using root by (simp add: np_div_def add_divide_distrib)
  have dtheta: "np_sub (np_sub (np_mul (np_div x (x ^ 2 + y ^ 2)) (Fin x_dot))
                               (np_mul (np_div y (x ^ 2 + y ^ 2)) (Fin y_dot)))
                       (Fin yaw_dot)
                = Fin ((x * x_dot - y * y_dot) / (x ^ 2 + y ^ 2) - yaw_dot)"
    using nz by (simp add: np_div_def diff_divide_distrib)
  show ?thesis
    unfolding state_to_relative_def Let_def list.case ddx dtheta np_square_power2
    by simp
qed

text \<open>At the origin both divisions are \<open>0 / 0\<close>: the last two components are \<open>nan\<close>.\<close>

lemma relative_coordinates_origin:
  "state_to_relative env [0, 0, yaw, x_dot, y_dot, yaw_dot] =
     Inr [Fin (- radius env), Fin (normalize_angle (pi - yaw)), NaN, NaN]"
  by (simp add: state_to_relative_def Let_def np_square_def np_div_def arctan2_def)

subsection \<open>\<open>step\<close> without a collision\<close>

lemma step_no_collision:
  assumes "model_state_transition env (self_state env) a (self_dt env)
             = [x, y, yaw, x_dot, y_dot, yaw_dot]"
      and "\<not> check_collision env [x, y, yaw, x_dot, y_dot, yaw_dot]"
  shows "\<exists>obs. state_to_relative env [x, y, yaw, x_dot, y_dot, yaw_dot] = Inr obs \<and>
           snd (step env a) =
             Inr \<lparr>observation = obs,
                  reward = - \<bar>radius env - sqrt (x ^ 2 + y ^ 2)\<bar>
                           - 0.25 * (sqrt (x_dot ^ 2 + y_dot ^ 2) - target_velocity env) ^ 2,
                  done_flag = False,
                  dist_info = Fin (radius env - sqrt (x ^ 2 + y ^ 2)),
                  vel_info = Fin (sqrt (x_dot ^ 2 + y_dot ^ 2) - target_velocity env)\<rparr>"
proof -
  obtain obs where "state_to_relative env [x, y, yaw, x_dot, y_dot, yaw_dot] = Inr obs"
    using state_to_relative_defined by blast
  with assms show ?thesis
    by (simp add: step_def Let_def state_to_relative_env np_square_power2)
qed

subsection \<open>Cosine and sine of \<open>arctan2\<close>\<close>

lemma sqrt_one_plus_ratio:
  fixes a b :: real
  assumes "a \<noteq> 0"
  shows "sqrt (1 + (b / a) ^ 2) = sqrt (a ^ 2 + b ^ 2) / \<bar>a\<bar>"
proof -
  from assms have "1 + (b / a) ^ 2 = (a ^ 2 + b ^ 2) / a ^ 2"
    by (simp add: power_divide add_divide_distrib)
  then show ?thesis by (simp add: real_sqrt_divide)
qed

lemma arctan2_cos_sin:
  fixes a b :: real
  assumes "(a, b) \<noteq> (0, 0)"
  shows "cos (arctan2 b a) = a / sqrt (a ^ 2 + b ^ 2)"
    and "sin (arctan2 b a) = b / sqrt (a ^ 2 + b ^ 2)"
proof -
  have "cos (arctan2 b a) = a / sqrt (a ^ 2 + b ^ 2) \<and>
        sin (arctan2 b a) = b / sqrt (a ^ 2 + b ^ 2)"
  proof (cases "a = 0")
    case True
    with assms have "b \<noteq> 0" by simp
    with True show ?thesis
      by (cases "0 < b") (simp_all add: arctan2_def)
  next
    case False
    then have r: "sqrt (1 + (b / a) ^ 2) = sqrt (a ^ 2 + b ^ 2) / \<bar>a\<bar>"
      by (rule sqrt_one_plus_ratio)
    show ?thesis
    proof (cases "0 < a")
      case True
      then show ?thesis
        by (simp add: arctan2_def cos_arctan sin_arctan r)
    next
      case neg: False
      with False have "a < 0" by simp
      then show ?thesis
        by (simp add: arctan2_def cos_arctan sin_arctan r)
    qed
  qed
  then show "cos (arctan2 b a) = a / sqrt (a ^ 2 + b ^ 2)"
    and "sin (arctan2 b a) = b / sqrt (a ^ 2 + b ^ 2)" by simp_all
qed

lemma normalize_angle_full_turns: "normalize_angle (- (2 * pi * of_int k)) = 0"
proof -
  have "- (2 * pi * of_int k) / (2 * pi) = of_int (- k)" by simp
  then have "\<lfloor>- (2 * pi * real_of_int k) / (2 * pi)\<rfloor> = - k"
    by (simp only: floor_of_int)
  then have "py_mod (- (2 * pi * of_int k)) (2 * pi) = 0"
    by (simp add: py_mod_def)
  then show ?thesis using pi_gt_zero by (simp add: normalize_angle_def Let_def)
qed

subsection \<open>The sampled initial state\<close>

lemma get_initial_state_eq:
  "fst (get_initial_state env rng) =
     [0.5 * shd rng - 0.5 / 2 - radius env,
      0,
      deg2rad 60 * shd (stl rng) - deg2rad 60 / 2 + deg2rad 270,
      1.5 * target_velocity env * shd (stl (stl rng)) - 1.5 * target_velocity env / 2,
      - (1.5 * target_velocity env) * shd (stl (stl (stl rng))),
      2 * shd (stl (stl (stl (stl rng)))) - 2 / 2]"
  by (simp add: get_initial_state_def Let_def np_random_random_def eval_nat_numeral)

lemma draws_unit:
  assumes "sset rng \<subseteq> {0..<1::real}"
  shows "0 \<le> shd rng \<and> shd rng < 1" and "sset (stl rng) \<subseteq> {0..<1}"
proof -
  have "shd rng \<in> sset rng" by (rule shd_sset)
  with assms show "0 \<le> shd rng \<and> shd rng < 1" by auto
  have "sset (stl rng) \<subseteq> sset rng" by (auto intro: stl_sset)
  with assms show "sset (stl rng) \<subseteq> {0..<1}" by blast
qed

lemma scaled_draw_bound:
  fixes m u :: real
  assumes "0 \<le> u" and "u < 1"
  shows "\<bar>m * u - m / 2\<bar> \<le> \<bar>m\<bar> / 2" and "\<bar>- m * u\<bar> \<le> \<bar>m\<bar>"
proof -
  from assms have "\<bar>u - 1 / 2\<bar> \<le> 1 / 2" by linarith
  then have "\<bar>m\<bar> * \<bar>u - 1 / 2\<bar> \<le> \<bar>m\<bar> * (1 / 2)"
    by (intro mult_left_mono) simp_all
  moreover have "m * u - m / 2 = m * (u - 1 / 2)" by (simp add: algebra_simps)
  ultimately show "\<bar>m * u - m / 2\<bar> \<le> \<bar>m\<bar> / 2" by (simp add: abs_mult)
  from assms have "\<bar>u\<bar> \<le> 1" by simp
  then have "\<bar>m\<bar> * \<bar>u\<bar> \<le> \<bar>m\<bar> * 1" by (intro mult_left_mono) simp_all
  then show "\<bar>- m * u\<bar> \<le> \<bar>m\<bar>" by (simp add: abs_mult)
qed

section \<open>Angle normalisation\<close>

text \<open>
  C9. \<open>_normalize_angle\<close> is idempotent: for every real angle, normalising the
  normalised angle gives the normalised angle.
\<close>

theorem normalize_angle_idempotent:
  "normalize_angle (normalize_angle a) = normalize_angle a"
  by (rule normalize_angle_fixed) (rule normalize_angle_range)+

text \<open>
  C4. The docstring of \<open>_normalize_angle\<close> promises a result in \<open>[-pi, pi)\<close>. The test
  \<open>angle > np.pi\<close> leaves a remainder equal to \<open>pi\<close> as it is, so the angle \<open>pi\<close> is
  returned as \<open>pi\<close>, which is outside the promised interval; the value \<open>-pi\<close> is never
  returned. The heading error of \<open>_state_to_relative\<close> is \<open>pi\<close> for the car at
  \<open>(0, 1)\<close> with yaw \<open>0\<close>.
\<close>

theorem normalize_angle_pi_outside:
  "normalize_angle pi = pi \<and> \<not> normalize_angle pi < pi \<and>
   (\<exists>dx ddx dtheta. state_to_relative example_env [0, 1, 0, 0, 0, 0]
                       = Inr [dx, Fin pi, ddx, dtheta])"
proof -
  have "normalize_angle pi = pi"
    using normalize_angle_fixed [of pi] pi_gt_zero by simp
  then show ?thesis
    by (simp add: state_to_relative_def Let_def arctan2_def)
qed

section \<open>The relative-coordinate transform\<close>

text \<open>
  C5. For a state \<open>[x, y, yaw, x_dot, y_dot, yaw_dot]\<close> with \<open>(x, y) \<noteq> (0, 0)\<close>,
  \<open>_state_to_relative\<close> returns \<open>[dx, theta, ddx, dtheta]\<close> with
  \<open>dx = sqrt (x\<^sup>2 + y\<^sup>2) - radius\<close>, \<open>theta = normalize (atan2 (-x, y) + pi - yaw)\<close>,
  \<open>ddx = (x * x_dot + y * y_dot) / sqrt (x\<^sup>2 + y\<^sup>2)\<close> and
  \<open>dtheta = (x * x_dot - y * y_dot) / (x\<^sup>2 + y\<^sup>2) - yaw_dot\<close>.
\<close>

theorem state_to_relative_formula:
  assumes "(x, y) \<noteq> (0, 0)"
  shows "state_to_relative env [x, y, yaw, x_dot, y_dot, yaw_dot] =
           Inr [Fin (sqrt (x ^ 2 + y ^ 2) - radius env),
                Fin (normalize_angle (arctan2 (- x) y + pi - yaw)),
                Fin ((x * x_dot + y * y_dot) / sqrt (x ^ 2 + y ^ 2)),
                Fin ((x * x_dot - y * y_dot) / (x ^ 2 + y ^ 2) - yaw_dot)]"
  using assms by (rule relative_coordinates)

theorem state_to_relative_formula_witness:
  "(3, 4) \<noteq> (0, 0 :: real) \<and>
   state_to_relative example_env [3, 4, 0, 1, 2, 5] =
     Inr [Fin 4, Fin (normalize_angle (arctan2 (- 3) 4 + pi - 0)), Fin (11 / 5),
          Fin (- 1 / 5 - 5)]"
proof -
  have "sqrt ((3::real) ^ 2 + 4 ^ 2) = 5"
    by (rule real_sqrt_unique) simp_all
  then show ?thesis
    using state_to_relative_formula [of 3 4 example_env 0 1 2 5]
    by (simp add: example_env_def)
qed

section \<open>\<open>step\<close>\<close>

text \<open>
  C1. For a call of \<open>step\<close> whose dynamics model returns a vector of six components
  (the unpacking raises on any other): when the collision check on that \<open>nextstate\<close>
  reports a collision, \<open>step\<close> returns reward \<open>-100\<close>, \<open>done = True\<close> and the
  diagnostics \<open>dist\<close> and \<open>vel\<close> both \<open>+infinity\<close>; when it reports none, \<open>step\<close>
  returns \<open>done = False\<close>. So \<open>done\<close> is true exactly when a collision was detected.
\<close>

theorem step_done_iff_collision:
  assumes "model_state_transition env (self_state env) a (self_dt env) = nextstate"
      and "length nextstate = 6"
  shows "\<exists>res. snd (step env a) = Inr res \<and>
           (done_flag res \<longleftrightarrow> check_collision env nextstate) \<and>
           (check_collision env nextstate \<longrightarrow>
              reward res = - 100 \<and> done_flag res = True \<and>
              dist_info res = PosInf \<and> vel_info res = PosInf) \<and>
           (\<not> check_collision env nextstate \<longrightarrow> done_flag res = False)"
proof -
  from assms(2) obtain x y yaw x_dot y_dot yaw_dot
    where ns: "nextstate = [x, y, yaw, x_dot, y_dot, yaw_dot]"
    using length_six by blast
  obtain obs where "state_to_relative env [x, y, yaw, x_dot, y_dot, yaw_dot] = Inr obs"
    using state_to_relative_defined by blast
  with assms(1) ns show ?thesis
    by (simp add: step_def Let_def state_to_relative_env)
qed

theorem step_done_iff_collision_witness:
  "model_state_transition example_env (self_state example_env) 1 (self_dt example_env)
     = [2, 0, pi / 2, 0, 1, 0] \<and>
   length [2, 0, pi / 2, 0, 1, 0 :: real] = 6 \<and>
   check_collision example_env [2, 0, pi / 2, 0, 1, 0] \<and>
   (\<exists>res. snd (step example_env 1) = Inr res \<and> reward res = - 100 \<and> done_flag res \<and>
      dist_info res = PosInf \<and> vel_info res = PosInf)"
  using step_done_iff_collision [of example_env 1 "[2, 0, pi / 2, 0, 1, 0]"]
  by (auto simp: example_env_def)

text \<open>
  C2. For a call of \<open>step\<close> in which no collision is detected, with
  \<open>nextstate = [x, y, yaw, x_dot, y_dot, yaw_dot]\<close> the committed state, the reward
  is \<open>- |radius - sqrt (x\<^sup>2 + y\<^sup>2)| - 0.25 * (sqrt (x_dot\<^sup>2 + y_dot\<^sup>2) - target_velocity)\<^sup>2\<close>
  and the diagnostics are \<open>dist = radius - sqrt (x\<^sup>2 + y\<^sup>2)\<close> and
  \<open>vel = sqrt (x_dot\<^sup>2 + y_dot\<^sup>2) - target_velocity\<close>.
\<close>

theorem step_reward_formula:
  assumes "model_state_transition env (self_state env) a (self_dt env)
             = [x, y, yaw, x_dot, y_dot, yaw_dot]"
      and "\<not> check_collision env [x, y, yaw, x_dot, y_dot, yaw_dot]"
  shows "\<exists>obs. snd (step env a) =
           Inr \<lparr>observation = obs,
                reward = - \<bar>radius env - sqrt (x ^ 2 + y ^ 2)\<bar>
                         - 0.25 * (sqrt (x_dot ^ 2 + y_dot ^ 2) - target_velocity env) ^ 2,
                done_flag = False,
                dist_info = Fin (radius env - sqrt (x ^ 2 + y ^ 2)),
                vel_info = Fin (sqrt (x_dot ^ 2 + y_dot ^ 2) - target_velocity env)\<rparr>"
  using step_no_collision [OF assms] by blast

theorem step_reward_formula_witness:
  "model_state_transition (example_env\<lparr>target_velocity := 3\<rparr>)
      (self_state (example_env\<lparr>target_velocity := 3\<rparr>)) 0
      (self_dt (example_env\<lparr>target_velocity := 3\<rparr>)) = [1, 0, pi / 2, 0, 1, 0] \<and>
   \<not> check_collision (example_env\<lparr>target_velocity := 3\<rparr>) [1, 0, pi / 2, 0, 1, 0] \<and>
   (\<exists>obs. snd (step (example_env\<lparr>target_velocity := 3\<rparr>) 0) =
      Inr \<lparr>observation = obs, reward = - 1, done_flag = False,
           dist_info = Fin 0, vel_info = Fin (- 2)\<rparr>)"
  using step_reward_formula [of "example_env\<lparr>target_velocity := 3\<rparr>" 0 1 0 "pi / 2" 0 1 0]
  by (simp add: example_env_def)

text \<open>
  C3. After a call of \<open>step\<close> in which a collision is detected the state of the
  environment is the state before the call; after a call without a collision it is
  \<open>nextstate\<close>.
\<close>

theorem step_state_frame:
  "self_state (fst (step env a)) =
     (if check_collision env (model_state_transition env (self_state env) a (self_dt env))
      then self_state env
      else model_state_transition env (self_state env) a (self_dt env))"
  by (simp add: step_def Let_def case_six split: sum.splits)

text \<open>
  C6, as the code has it. The observation is always the transform of \<open>nextstate\<close>, the
  output of the dynamics model, and \<open>step\<close> raises exactly when that transform does.
  Without a collision \<open>nextstate\<close> is the committed state; with a collision it is the
  rejected state, not the state the environment retains.
\<close>

theorem step_observation_of_nextstate:
  "(case snd (step env a) of
      Inl e \<Rightarrow> state_to_relative env
                 (model_state_transition env (self_state env) a (self_dt env)) = Inl e
    | Inr res \<Rightarrow> state_to_relative env
                 (model_state_transition env (self_state env) a (self_dt env))
                   = Inr (observation res)) \<and>
   self_state (fst (step env a)) =
     (if check_collision env (model_state_transition env (self_state env) a (self_dt env))
      then self_state env
      else model_state_transition env (self_state env) a (self_dt env))"
  by (simp add: step_def Let_def state_to_relative_env state_to_relative_def case_six
           split: sum.splits)

text \<open>
  C6 as claimed fails on a collision: from the state \<open>[1, 0, pi/2, 0, 1, 0]\<close> the
  action \<open>1\<close> leads to \<open>[2, 0, pi/2, 0, 1, 0]\<close>, which collides. The environment keeps
  the old state, whose transform has \<open>dx = 0\<close>, and the observation returned has
  \<open>dx = 1\<close>.
\<close>

theorem step_observation_retained_counterexample:
  "check_collision example_env
     (model_state_transition example_env (self_state example_env) 1 (self_dt example_env)) \<and>
   self_state (fst (step example_env 1)) = self_state example_env \<and>
   (\<exists>res. snd (step example_env 1) = Inr res \<and>
      state_to_relative (fst (step example_env 1)) (self_state (fst (step example_env 1)))
        \<noteq> Inr (observation res))"
  by (simp add: step_def Let_def example_env_def state_to_relative_def np_square_def)

section \<open>The initial state\<close>

text \<open>
  C7, as the code has it. For draws in \<open>[0, 1)\<close> the sampled state has
  \<open>x\<close> in \<open>[-radius - 0.25, -radius + 0.25]\<close>, \<open>yaw\<close> between 240 and 300 degrees
  (in radians), \<open>|x_dot| \<le> 0.75 * |target_velocity|\<close>,
  \<open>|y_dot| \<le> 1.5 * |target_velocity|\<close> and \<open>yaw_dot\<close> in \<open>[-1, 1]\<close>. The velocity bounds
  are those of the claim when the target velocity is not negative.
\<close>

theorem get_initial_state_bounds:
  assumes "sset rng \<subseteq> {0..<1}"
  shows "\<exists>x y yaw x_dot y_dot yaw_dot.
           fst (get_initial_state env rng) = [x, y, yaw, x_dot, y_dot, yaw_dot] \<and>
           - radius env - 0.25 \<le> x \<and> x \<le> - radius env + 0.25 \<and>
           deg2rad (270 - 30) \<le> yaw \<and> yaw \<le> deg2rad (270 + 30) \<and>
           \<bar>x_dot\<bar> \<le> 0.75 * \<bar>target_velocity env\<bar> \<and>
           \<bar>y_dot\<bar> \<le> 1.5 * \<bar>target_velocity env\<bar> \<and>
           - 1 \<le> yaw_dot \<and> yaw_dot \<le> 1"
proof -
  note d1 = draws_unit [OF assms]
  note d2 = draws_unit [OF d1(2)]
  note d3 = draws_unit [OF d2(2)]
  note d4 = draws_unit [OF d3(2)]
  note d5 = draws_unit [OF d4(2)]
  have x: "- radius env - 0.25 \<le> 0.5 * shd rng - 0.5 / 2 - radius env"
          "0.5 * shd rng - 0.5 / 2 - radius env \<le> - radius env + 0.25"
    using d1(1) by simp_all
  have yaw: "deg2rad (270 - 30) \<le> deg2rad 60 * shd (stl rng) - deg2rad 60 / 2 + deg2rad 270"
            "deg2rad 60 * shd (stl rng) - deg2rad 60 / 2 + deg2rad 270 \<le> deg2rad (270 + 30)"
    using d2(1) pi_gt_zero by (simp_all add: deg2rad_def field_simps)
  have x_dot: "\<bar>1.5 * target_velocity env * shd (stl (stl rng)) - 1.5 * target_velocity env / 2\<bar>
                 \<le> 0.75 * \<bar>target_velocity env\<bar>"
    using scaled_draw_bound(1) [of "shd (stl (stl rng))" "1.5 * target_velocity env"] d3(1)
    by (simp add: abs_mult)
  have y_dot: "\<bar>- (1.5 * target_velocity env) * shd (stl (stl (stl rng)))\<bar>
                 \<le> 1.5 * \<bar>target_velocity env\<bar>"
    using scaled_draw_bound(2) [of "shd (stl (stl (stl rng)))" "1.5 * target_velocity env"] d4(1)
    by (simp add: abs_mult)
  have yaw_dot: "- 1 \<le> 2 * shd (stl (stl (stl (stl rng)))) - 2 / 2"
                "2 * shd (stl (stl (stl (stl rng)))) - 2 / 2 \<le> 1"
    using d5(1) by simp_all
  show ?thesis
    unfolding get_initial_state_eq using x yaw x_dot y_dot yaw_dot by blast
qed

theorem get_initial_state_bounds_witness:
  "sset (0 ## 1 / 4 ## 1 / 2 ## 3 / 4 ## sconst (1 / 8)) \<subseteq> {0..<1::real} \<and>
   (\<exists>x y yaw x_dot y_dot yaw_dot.
      fst (get_initial_state example_env (0 ## 1 / 4 ## 1 / 2 ## 3 / 4 ## sconst (1 / 8)))
        = [x, y, yaw, x_dot, y_dot, yaw_dot] \<and>
      - radius example_env - 0.25 \<le> x \<and> x \<le> - radius example_env + 0.25 \<and>
      deg2rad (270 - 30) \<le> yaw \<and> yaw \<le> deg2rad (270 + 30) \<and>
      \<bar>x_dot\<bar> \<le> 0.75 * \<bar>target_velocity example_env\<bar> \<and>
      \<bar>y_dot\<bar> \<le> 1.5 * \<bar>target_velocity example_env\<bar> \<and>
      - 1 \<le> yaw_dot \<and> yaw_dot \<le> 1)"
proof -
  have draws: "sset (0 ## 1 / 4 ## 1 / 2 ## 3 / 4 ## sconst (1 / 8)) \<subseteq> {0..<1::real}"
    by simp
  from draws get_initial_state_bounds [OF draws, of example_env] show ?thesis
    by (rule conjI)
qed

text \<open>
  C7 as claimed bounds \<open>|x_dot|\<close> by \<open>0.75 * target_velocity\<close>: with target velocity
  \<open>-1\<close> and every draw \<open>0\<close>, \<open>x_dot\<close> is \<open>0.75\<close> and the bound is \<open>-0.75\<close>.
\<close>

theorem get_initial_state_bounds_counterexample:
  "sset (sconst 0) \<subseteq> {0..<1::real} \<and>
   fst (get_initial_state (example_env\<lparr>target_velocity := - 1\<rparr>) (sconst 0)) ! 3 = 0.75 \<and>
   \<not> \<bar>fst (get_initial_state (example_env\<lparr>target_velocity := - 1\<rparr>) (sconst 0)) ! 3\<bar>
       \<le> 0.75 * target_velocity (example_env\<lparr>target_velocity := - 1\<rparr>)"
  by (simp add: get_initial_state_eq)

text \<open>
  C10, as the code has it. For draws in \<open>[0, 1)\<close> the sampled state has \<open>y\<close> exactly
  \<open>0\<close>; when the target velocity is positive, \<open>y_dot\<close> is in
  \<open>(-1.5 * target_velocity, 0]\<close>.
\<close>

theorem get_initial_state_on_axis:
  assumes "sset rng \<subseteq> {0..<1}"
  shows "\<exists>x yaw x_dot y_dot yaw_dot.
           fst (get_initial_state env rng) = [x, 0, yaw, x_dot, y_dot, yaw_dot] \<and>
           (0 < target_velocity env \<longrightarrow>
              - (1.5 * target_velocity env) < y_dot \<and> y_dot \<le> 0)"
proof -
  note d1 = draws_unit [OF assms]
  note d2 = draws_unit [OF d1(2)]
  note d3 = draws_unit [OF d2(2)]
  note d4 = draws_unit [OF d3(2)]
  let ?u = "shd (stl (stl (stl rng)))" and ?m = "1.5 * target_velocity env"
  have "- ?m < - ?m * ?u \<and> - ?m * ?u \<le> 0" if "0 < target_velocity env"
  proof -
    from that have m: "0 < ?m" by simp
    with d4(1) have "?m * ?u < ?m * 1" by (intro mult_strict_left_mono) simp_all
    moreover from m d4(1) have "0 \<le> ?m * ?u" by (intro mult_nonneg_nonneg) simp_all
    ultimately show ?thesis by simp
  qed
  then show ?thesis
    unfolding get_initial_state_eq by blast
qed

theorem get_initial_state_on_axis_witness:
  "sset (0 ## 1 / 4 ## 1 / 2 ## 3 / 4 ## sconst (1 / 8)) \<subseteq> {0..<1::real} \<and>
   0 < target_velocity example_env \<and>
   (\<exists>x yaw x_dot y_dot yaw_dot.
      fst (get_initial_state example_env (0 ## 1 / 4 ## 1 / 2 ## 3 / 4 ## sconst (1 / 8)))
        = [x, 0, yaw, x_dot, y_dot, yaw_dot] \<and>
      - (1.5 * target_velocity example_env) < y_dot \<and> y_dot \<le> 0)"
proof -
  have draws: "sset (0 ## 1 / 4 ## 1 / 2 ## 3 / 4 ## sconst (1 / 8)) \<subseteq> {0..<1::real}"
    by simp
  have tv: "0 < target_velocity example_env" by (simp add: example_env_def)
  from get_initial_state_on_axis [OF draws, of example_env] tv draws show ?thesis
    by blast
qed

text \<open>
  C10 as claimed has \<open>y_dot\<close> nonpositive: with target velocity \<open>-1\<close> and every draw
  \<open>1/2\<close>, \<open>y_dot\<close> is \<open>0.75\<close>.
\<close>

theorem get_initial_state_on_axis_counterexample:
  "sset (sconst (1 / 2)) \<subseteq> {0..<1::real} \<and>
   fst (get_initial_state (example_env\<lparr>target_velocity := - 1\<rparr>) (sconst (1 / 2))) ! 4 = 0.75 \<and>
   \<not> fst (get_initial_state (example_env\<lparr>target_velocity := - 1\<rparr>) (sconst (1 / 2))) ! 4 \<le> 0"
  by (simp add: get_initial_state_eq)

section \<open>On the circle, along the tangent, at the target velocity\<close>

text \<open>
  C8. Let the radius be positive, the state be on the target circle
  (\<open>sqrt (x\<^sup>2 + y\<^sup>2) = radius\<close>), its heading be the tangent direction
  \<open>atan2 (-x, y) + pi\<close> up to whole turns, and its velocity \<open>(x_dot, y_dot)\<close> point along
  that heading with magnitude \<open>target_velocity\<close>. Then \<open>_state_to_relative\<close> yields
  \<open>dx = 0\<close>, \<open>theta = 0\<close> and \<open>ddx = 0\<close>, and a call of \<open>step\<close> that commits this state
  returns the reward \<open>0\<close>.
\<close>

theorem on_circle_tangent_zero_error:
  assumes r: "0 < radius env"
      and on: "sqrt (x ^ 2 + y ^ 2) = radius env"
      and yaw: "yaw = arctan2 (- x) y + pi + 2 * pi * of_int k"
      and tv: "0 \<le> target_velocity env"
      and xd: "x_dot = target_velocity env * cos yaw"
      and yd: "y_dot = target_velocity env * sin yaw"
  shows "(\<exists>dtheta. state_to_relative env [x, y, yaw, x_dot, y_dot, yaw_dot]
                     = Inr [Fin 0, Fin 0, Fin 0, Fin dtheta]) \<and>
         (model_state_transition env (self_state env) a (self_dt env)
            = [x, y, yaw, x_dot, y_dot, yaw_dot] \<and>
          \<not> check_collision env [x, y, yaw, x_dot, y_dot, yaw_dot] \<longrightarrow>
          (\<exists>res. snd (step env a) = Inr res \<and> reward res = 0))"
proof -
  let ?r = "radius env" and ?v = "target_velocity env"
  from r on have pos: "0 < x ^ 2 + y ^ 2"
    by (metis real_sqrt_gt_0_iff)
  then have org: "(x, y) \<noteq> (0, 0)" and org': "(y, - x) \<noteq> (0, 0)" by auto
  from on have on': "sqrt (y ^ 2 + (- x) ^ 2) = ?r" by (simp add: add.commute)
  have c: "cos (arctan2 (- x) y) = y / ?r" and s: "sin (arctan2 (- x) y) = - x / ?r"
    using arctan2_cos_sin [OF org'] on' by simp_all
  have cy: "cos yaw = - (y / ?r)" and sy: "sin yaw = x / ?r"
    unfolding yaw by (simp_all add: cos_add sin_add c s)
  from r have sq: "x ^ 2 + y ^ 2 = ?r ^ 2"
    using on by (metis abs_of_pos real_sqrt_abs real_sqrt_eq_iff)
  have ddx: "x * x_dot + y * y_dot = 0"
    by (simp add: xd yd cy sy)
  have theta: "normalize_angle (arctan2 (- x) y + pi - yaw) = 0"
    using normalize_angle_full_turns [of k] by (simp add: yaw)
  have "x_dot ^ 2 + y_dot ^ 2 = ?v ^ 2 * ((x ^ 2 + y ^ 2) / ?r ^ 2)"
    by (simp add: xd yd cy sy power_divide algebra_simps add_divide_distrib)
  also have "\<dots> = ?v ^ 2" using r sq by simp
  finally have "sqrt (x_dot ^ 2 + y_dot ^ 2) = \<bar>?v\<bar>" by simp
  with tv have speed: "sqrt (x_dot ^ 2 + y_dot ^ 2) = ?v" by simp
  have rel: "\<exists>dtheta. state_to_relative env [x, y, yaw, x_dot, y_dot, yaw_dot]
                     = Inr [Fin 0, Fin 0, Fin 0, Fin dtheta]"
    by (simp add: relative_coordinates [OF org] on theta ddx)
  have rew: "\<exists>res. snd (step env a) = Inr res \<and> reward res = 0"
    if "model_state_transition env (self_state env) a (self_dt env)
          = [x, y, yaw, x_dot, y_dot, yaw_dot]"
      and "\<not> check_collision env [x, y, yaw, x_dot, y_dot, yaw_dot]"
    using step_no_collision [OF that] by (auto simp: on speed)
  from rel rew show ?thesis by blast
qed

theorem on_circle_tangent_zero_error_witness:
  "0 < radius example_env \<and>
   sqrt (1 ^ 2 + 0 ^ 2) = radius example_env \<and>
   pi / 2 = arctan2 (- 1) 0 + pi + 2 * pi * of_int 0 \<and>
   0 \<le> target_velocity example_env \<and>
   0 = target_velocity example_env * cos (pi / 2) \<and>
   1 = target_velocity example_env * sin (pi / 2) \<and>
   model_state_transition example_env (self_state example_env) 0 (self_dt example_env)
     = [1, 0, pi / 2, 0, 1, 0] \<and>
   \<not> check_collision example_env [1, 0, pi / 2, 0, 1, 0] \<and>
   (\<exists>dtheta. state_to_relative example_env [1, 0, pi / 2, 0, 1, 0]
                = Inr [Fin 0, Fin 0, Fin 0, Fin dtheta]) \<and>
   (\<exists>res. snd (step example_env 0) = Inr res \<and> reward res = 0)"
proof -
  have h1: "0 < radius example_env" by (simp add: example_env_def)
  have h2: "sqrt (1 ^ 2 + 0 ^ 2) = radius example_env" by (simp add: example_env_def)
  have h3: "pi / 2 = arctan2 (- 1) 0 + pi + 2 * pi * of_int 0" by (simp add: arctan2_def)
  have h4: "0 \<le> target_velocity example_env" by (simp add: example_env_def)
  have h5: "0 = target_velocity example_env * cos (pi / 2)" by simp
  have h6: "1 = target_velocity example_env * sin (pi / 2)" by (simp add: example_env_def)
  have h7: "model_state_transition example_env (self_state example_env) 0 (self_dt example_env)
              = [1, 0, pi / 2, 0, 1, 0]" by (simp add: example_env_def)
  have h8: "\<not> check_collision example_env [1, 0, pi / 2, 0, 1, 0]"
    by (simp add: example_env_def)
  from on_circle_tangent_zero_error [OF h1 h2 h3 h4 h5 h6, of 0 0] h7 h8
  have "(\<exists>dtheta. state_to_relative example_env [1, 0, pi / 2, 0, 1, 0]
                = Inr [Fin 0, Fin 0, Fin 0, Fin dtheta]) \<and>
        (\<exists>res. snd (step example_env 0) = Inr res \<and> reward res = 0)"
    by blast
  with h1 h2 h3 h4 h5 h6 h7 h8 show ?thesis by blast
qed

end
